theory Spec2Isabelle
  imports Main "HOL-Library.Word"
begin

section \<open>Python values, exceptions and the notebook's namespace\<close>

text \<open>
  The notebook \<^verbatim>\<open>Lab9_Part2.1.ipynb\<close> is glue code over two remote services: AWS Secrets
  Manager (through \<^verbatim>\<open>boto3\<close>) and the OpenAI chat-completion endpoint. Neither service nor
  the libraries in front of them are part of the notebook, so they enter the model as
  parameters; the two functions of the notebook, \<^verbatim>\<open>get_secret\<close> and
  \<^verbatim>\<open>openai_gpt_help\<close>, and the cell that builds the client are translated statement by
  statement.

  A raised exception is a value: its class name, its argument, and the exception that was
  being handled when it was raised (Python's \<^verbatim>\<open>__context__\<close>).
\<close>

datatype py_error =
  PyError (exc_class: string) (exc_arg: string) (exc_context: "py_error option")

definition KeyError :: "string \<Rightarrow> py_error" where
  "KeyError k = PyError ''KeyError'' k None"

definition IndexError :: py_error where
  "IndexError = PyError ''IndexError'' ''list index out of range'' None"

definition TypeError :: "string \<Rightarrow> py_error" where
  "TypeError what = PyError ''TypeError'' what None"

text \<open>
  \<^verbatim>\<open>NameError name during\<close>: the name is not bound, and the lookup happened while
  \<open>during\<close> was being handled (so \<open>during\<close> survives only as the context of the new
  exception).
\<close>

definition NameError :: "string \<Rightarrow> py_error option \<Rightarrow> py_error" where
  "NameError name during = PyError ''NameError'' name during"

text \<open>
  The names the notebook's code cells bind at module level, in cell order: the import cell
  (\<^verbatim>\<open>import boto3\<close>, \<^verbatim>\<open>import json\<close>,
  \<^verbatim>\<open>from IPython.display import display, Image, Markdown\<close>,
  \<^verbatim>\<open>from openai import OpenAI\<close>, \<^verbatim>\<open>import pandas as pd\<close>,
  \<^verbatim>\<open>from pprint import pprint\<close>), then the \<^verbatim>\<open>def\<close>s and assignments of the later cells.
  No cell imports or defines \<^verbatim>\<open>ClientError\<close>, and it is not a builtin.
\<close>

definition module_globals :: "string list" where
  "module_globals =
     [''boto3'', ''json'', ''display'', ''Image'', ''Markdown'', ''OpenAI'', ''pd'', ''pprint'',
      ''get_secret'', ''client'', ''df'', ''data_prompt'', ''openai_gpt_help'', ''gpt_result'']"

text \<open>Reading a global name: the bound name, or \<^verbatim>\<open>NameError\<close>.\<close>

definition load_global :: "string \<Rightarrow> py_error option \<Rightarrow> py_error + string" where
  "load_global name during =
     (if name \<in> set module_globals then Inr name else Inl (NameError name during))"

text \<open>
  What \<^verbatim>\<open>json.loads\<close> returns: the Python objects of a JSON document. A float is kept as
  its 64-bit pattern; an object is a \<^verbatim>\<open>dict\<close>, here an association list read with
  \<open>map_of\<close>.
\<close>

datatype json =
  JNull
| JBool bool
| JInt int
| JFloat "64 word"
| JStr string
| JArr "json list"
| JObj "(string \<times> json) list"

text \<open>\<^verbatim>\<open>d[k]\<close> on a \<^verbatim>\<open>dict\<close> with string keys.\<close>

definition dict_getitem :: "(string \<times> 'v) list \<Rightarrow> string \<Rightarrow> py_error + 'v" where
  "dict_getitem d k = (case map_of d k of None \<Rightarrow> Inl (KeyError k) | Some v \<Rightarrow> Inr v)"

text \<open>
  \<^verbatim>\<open>x[k]\<close> with a string \<open>k\<close> on a value returned by \<^verbatim>\<open>json.loads\<close>: only a
  \<^verbatim>\<open>dict\<close> can be subscripted by a string; lists and strings want integers, the other
  values are not subscriptable.
\<close>

fun json_getitem :: "json \<Rightarrow> string \<Rightarrow> py_error + json" where
  "json_getitem (JObj d) k = dict_getitem d k"
| "json_getitem (JArr xs) k = Inl (TypeError ''list indices must be integers or slices, not str'')"
| "json_getitem (JStr s) k = Inl (TypeError ''string indices must be integers'')"
| "json_getitem v k = Inl (TypeError ''object is not subscriptable'')"

section \<open>The outside world\<close>

text \<open>
  One call of \<^verbatim>\<open>get_secret_value\<close> on a client built by
  \<^verbatim>\<open>session.client(service_name=..., region_name=...)\<close>.
\<close>

record secret_call =
  service_name :: string
  region_name :: string
  SecretId :: string

text \<open>A role-tagged chat message, the request sent to the endpoint, and its response.\<close>

record chat_message =
  role :: string
  content :: string

record request =
  model :: string
  messages :: "chat_message list"
  temperature :: int

record completion_usage =
  completion_tokens :: int
  prompt_tokens :: int
  total_tokens :: int

record chat_choice =
  message :: chat_message

record chat_completion =
  choices :: "chat_choice list"
  usage :: completion_usage

text \<open>
  The parts of the f-string \<^verbatim>\<open>f"Tokens used: {token_usage}"\<close>: literal text and the
  formatted usage record. One \<^verbatim>\<open>pprint\<close> call appends one such string to the output.
\<close>

datatype fpart = Lit string | Fmt completion_usage

text \<open>
  The observable effects: the calls of \<^verbatim>\<open>get_secret_value\<close> made on the secret store's
  client, the calls of \<^verbatim>\<open>chat.completions.create\<close> made on the completion client (one
  entry per call of the method, whatever the library does on the wire), and what was
  printed.
\<close>

record world =
  secret_calls :: "secret_call list"
  requests :: "request list"
  stdout :: "fpart list list"

text \<open>
  The secret store answers a call with the response dictionary or raises; the completion
  endpoint answers a request with a completion or raises. Either may depend on the calls it
  has seen before.
\<close>

type_synonym secret_store = "secret_call list \<Rightarrow> secret_call \<Rightarrow> py_error + (string \<times> string) list"

type_synonym completions_create = "request list \<Rightarrow> request \<Rightarrow> py_error + chat_completion"

text \<open>
  The handle \<^verbatim>\<open>OpenAI(api_key=...)\<close> returns: the key it is bound to and its
  \<^verbatim>\<open>chat.completions.create\<close> method.
\<close>

record openai_client =
  api_key :: json
  chat_completions_create :: completions_create

section \<open>The notebook's code\<close>

text \<open>
  \<^verbatim>\<open>
  def get_secret(secret_name):
      region_name = "us-east-1"
      session = boto3.session.Session()
      client = session.client(service_name='secretsmanager', region_name=region_name)
      try:
          get_secret_value_response = client.get_secret_value(SecretId=secret_name)
      except ClientError as e:
          raise e
      secret = get_secret_value_response['SecretString']
      return json.loads(secret)
  \<close>
  When the call in the \<^verbatim>\<open>try\<close> body raises \<open>e\<close>, Python evaluates the expression of
  the \<^verbatim>\<open>except\<close> clause, the global name \<^verbatim>\<open>ClientError\<close>, to match \<open>e\<close> against
  it. Were the name bound, a match would re-raise \<open>e\<close> itself and a mismatch would let
  \<open>e\<close> pass: \<open>e\<close> either way. \<^verbatim>\<open>json.loads\<close> is the parameter \<open>loads\<close>.
\<close>

definition get_secret ::
  "secret_store \<Rightarrow> (string \<Rightarrow> py_error + json) \<Rightarrow> string \<Rightarrow> world \<Rightarrow> (py_error + json) \<times> world"
where
  "get_secret store loads secret_name w =
     (let region = ''us-east-1'';
          call = \<lparr>service_name = ''secretsmanager'', region_name = region,
                  SecretId = secret_name\<rparr>;
          w' = w\<lparr>secret_calls := secret_calls w @ [call]\<rparr>
      in case store (secret_calls w) call of
           Inl e \<Rightarrow>
             (case load_global ''ClientError'' (Some e) of
                Inl name_error \<Rightarrow> (Inl name_error, w')
              | Inr cls \<Rightarrow> (Inl e, w'))
         | Inr get_secret_value_response \<Rightarrow>
             (case dict_getitem get_secret_value_response ''SecretString'' of
                Inl e \<Rightarrow> (Inl e, w')
              | Inr secret \<Rightarrow> (loads secret, w')))"

text \<open>
  \<^verbatim>\<open>client = OpenAI(api_key= get_secret('openai')['api_key'])\<close>: the secret is fetched,
  the bundle is subscripted, and only then the constructor (the parameter \<open>OpenAI\<close>) runs.
\<close>

definition init_client ::
  "secret_store \<Rightarrow> (string \<Rightarrow> py_error + json) \<Rightarrow> (json \<Rightarrow> py_error + openai_client) \<Rightarrow> world
     \<Rightarrow> (py_error + openai_client) \<times> world"
where
  "init_client store loads OpenAI w =
     (case get_secret store loads ''openai'' w of
        (Inl e, w') \<Rightarrow> (Inl e, w')
      | (Inr bundle, w') \<Rightarrow>
          (case json_getitem bundle ''api_key'' of
             Inl e \<Rightarrow> (Inl e, w')
           | Inr k \<Rightarrow> (OpenAI k, w')))"

text \<open>
  \<^verbatim>\<open>
  def openai_gpt_help(prompt):
      messages = [{"role": "user", "content": prompt}]
      response = client.chat.completions.create(
          model='gpt-4o', messages=messages, temperature = 0)
      token_usage = response.usage
      pprint(f"Tokens used: {token_usage}")
      return response.choices[0].message.content
  \<close>
  The module-level handle \<^verbatim>\<open>client\<close> that the function reads is the first argument.
\<close>

definition openai_gpt_help ::
  "openai_client \<Rightarrow> string \<Rightarrow> world \<Rightarrow> (py_error + string) \<times> world"
where
  "openai_gpt_help client prompt w =
     (let msgs = [\<lparr>role = ''user'', content = prompt\<rparr>];
          req = \<lparr>model = ''gpt-4o'', messages = msgs, temperature = 0\<rparr>;
          w1 = w\<lparr>requests := requests w @ [req]\<rparr>
      in case chat_completions_create client (requests w) req of
           Inl e \<Rightarrow> (Inl e, w1)
         | Inr response \<Rightarrow>
             (let token_usage = usage response;
                  w2 = w1\<lparr>stdout := stdout w1 @ [[Lit ''Tokens used: '', Fmt token_usage]]\<rparr>
              in case choices response of
                   [] \<Rightarrow> (Inl IndexError, w2)
                 | c # rest \<Rightarrow> (Inr (content (message c)), w2)))"

text \<open>What a run printed: the output of \<open>w'\<close> beyond that of the earlier world \<open>w\<close>.\<close>

definition printed_since :: "world \<Rightarrow> world \<Rightarrow> fpart list list" where
  "printed_since w w' = drop (length (stdout w)) (stdout w')"

text \<open>The usage records that a run surfaced: those formatted into what it printed.\<close>

definition surfaced_usage :: "world \<Rightarrow> world \<Rightarrow> completion_usage list" where
  "surfaced_usage w w' =
     concat (map (\<lambda>part. case part of Lit s \<Rightarrow> [] | Fmt u \<Rightarrow> [u]) (concat (printed_since w w')))"

section \<open>Stubs for the scenarios\<close>

definition fresh_world :: world where
  "fresh_world = \<lparr>secret_calls = [], requests = [], stdout = []\<rparr>"

text \<open>A secret store that refuses every call with an authorization error.\<close>

definition access_denied :: py_error where
  "access_denied = PyError ''ClientError'' ''AccessDeniedException'' None"

definition denying_store :: secret_store where
  "denying_store seen call = Inl access_denied"

text \<open>A secret store that answers every call with the given \<^verbatim>\<open>SecretString\<close>.\<close>

definition fixed_store :: "string \<Rightarrow> secret_store" where
  "fixed_store secret seen call = Inr [(''Name'', SecretId call), (''SecretString'', secret)]"

text \<open>
  A stand-in for \<^verbatim>\<open>json.loads\<close> that knows two documents: a bundle with the key
  \<^verbatim>\<open>api_key\<close> and a bundle without it.
\<close>

definition quoted :: "string \<Rightarrow> string" where
  "quoted s = CHR 0x22 # s @ [CHR 0x22]"

definition doc_with_key :: string where
  "doc_with_key = ''{'' @ quoted ''api_key'' @ '': '' @ quoted ''sk-test'' @ ''}''"

definition doc_without_key :: string where
  "doc_without_key = ''{'' @ quoted ''user'' @ '': '' @ quoted ''alice'' @ ''}''"

text \<open>
  A secret store that holds the bundle with the key under the name \<^verbatim>\<open>openai\<close> in
  \<^verbatim>\<open>us-east-1\<close> only, and knows no secret anywhere else.
\<close>

definition us_east_1_store :: secret_store where
  "us_east_1_store seen call =
     (if service_name call = ''secretsmanager'' \<and> region_name call = ''us-east-1''
         \<and> SecretId call = ''openai''
      then Inr [(''Name'', ''openai''), (''SecretString'', doc_with_key)]
      else Inl (PyError ''ClientError'' ''ResourceNotFoundException'' None))"

definition stub_loads :: "string \<Rightarrow> py_error + json" where
  "stub_loads s =
     (if s = doc_with_key then Inr (JObj [(''api_key'', JStr ''sk-test'')])
      else if s = doc_without_key then Inr (JObj [(''user'', JStr ''alice'')])
      else Inl (PyError ''JSONDecodeError'' s None))"

text \<open>A client whose endpoint answers every request with the same payload, or the same error.\<close>

definition fixed_client :: "chat_completion \<Rightarrow> openai_client" where
  "fixed_client payload =
     \<lparr>api_key = JStr ''sk-test'', chat_completions_create = (\<lambda>seen req. Inr payload)\<rparr>"

definition failing_client :: "py_error \<Rightarrow> openai_client" where
  "failing_client e =
     \<lparr>api_key = JStr ''sk-test'', chat_completions_create = (\<lambda>seen req. Inl e)\<rparr>"

definition stub_OpenAI :: "json \<Rightarrow> py_error + openai_client" where
  "stub_OpenAI k =
     Inr \<lparr>api_key = k, chat_completions_create = (\<lambda>seen req. Inl (PyError ''APIError'' [] None))\<rparr>"

definition assistant_says :: "string \<Rightarrow> chat_choice" where
  "assistant_says text = \<lparr>message = \<lparr>role = ''assistant'', content = text\<rparr>\<rparr>"

definition hello_payload :: "int \<Rightarrow> int \<Rightarrow> int \<Rightarrow> chat_completion" where
  "hello_payload p c t =
     \<lparr>choices = [assistant_says ''Hello!''],
      usage = \<lparr>completion_tokens = c, prompt_tokens = p, total_tokens = t\<rparr>\<rparr>"

text \<open>
  The endpoint of the end-to-end scenario: it answers the request with prompt
  \<^verbatim>\<open>"Say hello."\<close>, model \<^verbatim>\<open>"gpt-4o"\<close> and temperature \<open>0\<close> with the text
  \<^verbatim>\<open>"Hello!"\<close> and usage 5/2/7, and rejects every other request.
\<close>

definition hello_request :: request where
  "hello_request =
     \<lparr>model = ''gpt-4o'', messages = [\<lparr>role = ''user'', content = ''Say hello.''\<rparr>],
      temperature = 0\<rparr>"

definition hello_client :: openai_client where
  "hello_client =
     \<lparr>api_key = JStr ''sk-test'',
      chat_completions_create =
        (\<lambda>seen req. if req = hello_request then Inr (hello_payload 5 2 7)
                    else Inl (PyError ''BadRequestError'' [] None))\<rparr>"

section \<open>Properties\<close>

subsection \<open>Credential resolution\<close>

lemma get_secret_calls:
  "secret_calls (snd (get_secret store loads secret_name w)) =
     secret_calls w @ [\<lparr>service_name = ''secretsmanager'', region_name = ''us-east-1'',
                        SecretId = secret_name\<rparr>]"
  by (simp add: get_secret_def Let_def split: sum.splits)

lemma ClientError_unbound: "load_global ''ClientError'' during = Inl (NameError ''ClientError'' during)"
  by (simp add: load_global_def module_globals_def)

lemma get_secret_store_error:
  assumes "store (secret_calls w)
             \<lparr>service_name = ''secretsmanager'', region_name = ''us-east-1'',
              SecretId = secret_name\<rparr> = Inl e"
  shows "fst (get_secret store loads secret_name w) = Inl (NameError ''ClientError'' (Some e))"
  using assms by (simp add: get_secret_def Let_def ClientError_unbound)

text \<open>
  C1 (the code departs from the claim). The claim: whatever error the secret store call
  raises, \<^verbatim>\<open>get_secret\<close> propagates that same error, unwrapped. Evaluated on a store that
  raises an authorization error for \<^verbatim>\<open>get_secret('openai')\<close>, the code raises a
  \<^verbatim>\<open>NameError\<close> for the unbound name \<^verbatim>\<open>ClientError\<close> instead; the store's error is left
  as its context.
\<close>

theorem get_secret_access_denied_raises_NameError:
  "fst (get_secret denying_store stub_loads ''openai'' fresh_world) =
     Inl (PyError ''NameError'' ''ClientError'' (Some access_denied))
   \<and> fst (get_secret denying_store stub_loads ''openai'' fresh_world) \<noteq> Inl access_denied"
  by (simp add: get_secret_def Let_def denying_store_def ClientError_unbound NameError_def
      access_denied_def)

lemma get_secret_success:
  assumes "store (secret_calls w)
             \<lparr>service_name = ''secretsmanager'', region_name = ''us-east-1'',
              SecretId = secret_name\<rparr> = Inr response"
    and "map_of response ''SecretString'' = Some secret"
  shows "fst (get_secret store loads secret_name w) = loads secret"
  using assms by (simp add: get_secret_def Let_def dict_getitem_def)

lemma fixed_store_get_secret:
  "fst (get_secret (fixed_store secret) loads secret_name w) = loads secret"
  by (rule get_secret_success [where response = "[(''Name'', secret_name), (''SecretString'', secret)]"])
    (simp_all add: fixed_store_def)

lemma stub_loads_with_key: "stub_loads doc_with_key = Inr (JObj [(''api_key'', JStr ''sk-test'')])"
  by (simp add: stub_loads_def)

lemma stub_loads_without_key: "stub_loads doc_without_key = Inr (JObj [(''user'', JStr ''alice'')])"
  by (simp add: stub_loads_def doc_with_key_def doc_without_key_def quoted_def)

text \<open>
  C2. When the bundle that \<^verbatim>\<open>get_secret('openai')\<close> resolves is a dictionary without the
  key \<^verbatim>\<open>api_key\<close>, the client-initialization cell fails with the lookup error
  \<^verbatim>\<open>KeyError('api_key')\<close>: no default value is substituted and the constructor
  \<^verbatim>\<open>OpenAI\<close> is never reached, whatever it would do.
\<close>

theorem init_client_missing_api_key:
  assumes "fst (get_secret store loads ''openai'' w) = Inr (JObj bundle)"
    and "map_of bundle ''api_key'' = None"
  shows "fst (init_client store loads OpenAI w) = Inl (KeyError ''api_key'')"
proof -
  obtain r w' where run: "get_secret store loads ''openai'' w = (r, w')"
    by (cases "get_secret store loads ''openai'' w")
  with assms(1) have "r = Inr (JObj bundle)" by simp
  with run assms(2) show ?thesis
    by (simp add: init_client_def dict_getitem_def)
qed

theorem init_client_missing_api_key_witness:
  "fst (get_secret (fixed_store doc_without_key) stub_loads ''openai'' fresh_world) =
     Inr (JObj [(''user'', JStr ''alice'')])
   \<and> map_of [(''user'', JStr ''alice'')] ''api_key'' = None
   \<and> fst (init_client (fixed_store doc_without_key) stub_loads stub_OpenAI fresh_world) =
       Inl (KeyError ''api_key'')"
proof -
  have h1: "fst (get_secret (fixed_store doc_without_key) stub_loads ''openai'' fresh_world) =
              Inr (JObj [(''user'', JStr ''alice'')])"
    by (simp add: fixed_store_get_secret stub_loads_without_key)
  have h2: "map_of [(''user'', JStr ''alice'')] ''api_key'' = None"
    by simp
  show ?thesis
    using h1 h2 init_client_missing_api_key [OF h1 h2, of stub_OpenAI] by simp
qed

text \<open>
  C4. When the store's response holds a \<^verbatim>\<open>SecretString\<close> that deserializes to a bundle
  containing the expected key, \<^verbatim>\<open>get_secret\<close> returns exactly that deserialized bundle,
  and subscripting the result with the key yields the value the bundle holds: nothing but
  the deserialization is applied.
\<close>

theorem get_secret_returns_deserialized_bundle:
  assumes "store (secret_calls w)
             \<lparr>service_name = ''secretsmanager'', region_name = ''us-east-1'',
              SecretId = secret_name\<rparr> = Inr response"
    and "map_of response ''SecretString'' = Some secret"
    and "loads secret = Inr (JObj bundle)"
    and "map_of bundle key = Some v"
  shows "fst (get_secret store loads secret_name w) = Inr (JObj bundle)
         \<and> json_getitem (JObj bundle) key = Inr v"
proof -
  have "fst (get_secret store loads secret_name w) = loads secret"
    using assms(1,2) by (rule get_secret_success)
  with assms(3,4) show ?thesis
    by (simp add: dict_getitem_def)
qed

theorem get_secret_returns_deserialized_bundle_witness:
  "fst (get_secret (fixed_store doc_with_key) stub_loads ''openai'' fresh_world) =
     Inr (JObj [(''api_key'', JStr ''sk-test'')])
   \<and> json_getitem (JObj [(''api_key'', JStr ''sk-test'')]) ''api_key'' = Inr (JStr ''sk-test'')"
proof -
  have h1: "fixed_store doc_with_key (secret_calls fresh_world)
              \<lparr>service_name = ''secretsmanager'', region_name = ''us-east-1'',
               SecretId = ''openai''\<rparr> =
            Inr [(''Name'', ''openai''), (''SecretString'', doc_with_key)]"
    by (simp add: fixed_store_def)
  have h2: "map_of [(''Name'', ''openai''), (''SecretString'', doc_with_key)] ''SecretString'' =
              Some doc_with_key"
    by simp
  have h3: "map_of [(''api_key'', JStr ''sk-test'')] ''api_key'' = Some (JStr ''sk-test'')"
    by simp
  show ?thesis
    using get_secret_returns_deserialized_bundle
      [where store = "fixed_store doc_with_key" and loads = stub_loads and w = fresh_world,
        OF h1 h2 stub_loads_with_key h3]
    by simp
qed

text \<open>
  C9. Whatever secret identifier is passed, \<^verbatim>\<open>get_secret\<close> contacts the secret store
  through the \<^verbatim>\<open>secretsmanager\<close> service in the region \<^verbatim>\<open>us-east-1\<close>, with the
  identifier passed as \<^verbatim>\<open>SecretId\<close>, and nowhere else: that call is the one call it
  records; the answer the store gives to that call is the one whose \<^verbatim>\<open>SecretString\<close> is
  deserialized and returned; and what the store would answer in another region, to another
  service or for another identifier has no influence on the outcome.
\<close>

theorem get_secret_contacts_us_east_1:
  "secret_calls (snd (get_secret store loads secret_name w)) =
     secret_calls w @ [\<lparr>service_name = ''secretsmanager'', region_name = ''us-east-1'',
                        SecretId = secret_name\<rparr>]
   \<and> (\<forall>response secret.
         store (secret_calls w)
           \<lparr>service_name = ''secretsmanager'', region_name = ''us-east-1'',
            SecretId = secret_name\<rparr> = Inr response
         \<and> map_of response ''SecretString'' = Some secret
         \<longrightarrow> fst (get_secret store loads secret_name w) = loads secret)
   \<and> (\<forall>store'.
         store' (secret_calls w)
           \<lparr>service_name = ''secretsmanager'', region_name = ''us-east-1'',
            SecretId = secret_name\<rparr> =
         store (secret_calls w)
           \<lparr>service_name = ''secretsmanager'', region_name = ''us-east-1'',
            SecretId = secret_name\<rparr>
         \<longrightarrow> get_secret store' loads secret_name w = get_secret store loads secret_name w)"
proof (intro conjI allI impI)
  show "secret_calls (snd (get_secret store loads secret_name w)) =
     secret_calls w @ [\<lparr>service_name = ''secretsmanager'', region_name = ''us-east-1'',
                        SecretId = secret_name\<rparr>]"
    by (rule get_secret_calls)
next
  fix response secret
  assume "store (secret_calls w)
           \<lparr>service_name = ''secretsmanager'', region_name = ''us-east-1'',
            SecretId = secret_name\<rparr> = Inr response
         \<and> map_of response ''SecretString'' = Some secret"
  then show "fst (get_secret store loads secret_name w) = loads secret"
    by (simp add: get_secret_success)
next
  fix store' :: secret_store
  assume "store' (secret_calls w)
           \<lparr>service_name = ''secretsmanager'', region_name = ''us-east-1'',
            SecretId = secret_name\<rparr> =
         store (secret_calls w)
           \<lparr>service_name = ''secretsmanager'', region_name = ''us-east-1'',
            SecretId = secret_name\<rparr>"
  then show "get_secret store' loads secret_name w = get_secret store loads secret_name w"
    by (simp add: get_secret_def Let_def)
qed

theorem get_secret_contacts_us_east_1_witness:
  "secret_calls (snd (get_secret us_east_1_store stub_loads ''openai'' fresh_world)) =
     [\<lparr>service_name = ''secretsmanager'', region_name = ''us-east-1'', SecretId = ''openai''\<rparr>]
   \<and> fst (get_secret us_east_1_store stub_loads ''openai'' fresh_world) =
       Inr (JObj [(''api_key'', JStr ''sk-test'')])
   \<and> get_secret (fixed_store doc_with_key) stub_loads ''openai'' fresh_world =
       get_secret us_east_1_store stub_loads ''openai'' fresh_world"
proof -
  have answer: "us_east_1_store (secret_calls fresh_world)
                  \<lparr>service_name = ''secretsmanager'', region_name = ''us-east-1'',
                   SecretId = ''openai''\<rparr> =
                Inr [(''Name'', ''openai''), (''SecretString'', doc_with_key)]"
    by (simp add: us_east_1_store_def)
  have same: "fixed_store doc_with_key (secret_calls fresh_world)
                \<lparr>service_name = ''secretsmanager'', region_name = ''us-east-1'',
                 SecretId = ''openai''\<rparr> =
              us_east_1_store (secret_calls fresh_world)
                \<lparr>service_name = ''secretsmanager'', region_name = ''us-east-1'',
                 SecretId = ''openai''\<rparr>"
    by (simp add: fixed_store_def us_east_1_store_def)
  have found: "map_of [(''Name'', ''openai''), (''SecretString'', doc_with_key)] ''SecretString'' =
                 Some doc_with_key"
    by simp
  note all = get_secret_contacts_us_east_1
    [where store = us_east_1_store and loads = stub_loads and secret_name = "''openai''"
       and w = fresh_world]
  have "secret_calls (snd (get_secret us_east_1_store stub_loads ''openai'' fresh_world)) =
     [\<lparr>service_name = ''secretsmanager'', region_name = ''us-east-1'', SecretId = ''openai''\<rparr>]"
    using all [THEN conjunct1] by (simp add: fresh_world_def)
  moreover
  have "fst (get_secret us_east_1_store stub_loads ''openai'' fresh_world) = stub_loads doc_with_key"
    by (rule all [THEN conjunct2, THEN conjunct1, rule_format]) (intro conjI, rule answer, rule found)
  moreover
  have "get_secret (fixed_store doc_with_key) stub_loads ''openai'' fresh_world =
          get_secret us_east_1_store stub_loads ''openai'' fresh_world"
    by (rule all [THEN conjunct2, THEN conjunct2, rule_format]) (rule same)
  ultimately show ?thesis
    by (simp add: stub_loads_with_key)
qed

subsection \<open>The completion request\<close>

lemma openai_gpt_help_requests:
  "requests (snd (openai_gpt_help client prompt w)) =
     requests w @ [\<lparr>model = ''gpt-4o'', messages = [\<lparr>role = ''user'', content = prompt\<rparr>],
                    temperature = 0\<rparr>]"
  by (simp add: openai_gpt_help_def Let_def split: sum.splits list.splits)

lemma openai_gpt_help_raises:
  assumes "chat_completions_create client (requests w)
             \<lparr>model = ''gpt-4o'', messages = [\<lparr>role = ''user'', content = prompt\<rparr>],
              temperature = 0\<rparr> = Inl e"
  shows "fst (openai_gpt_help client prompt w) = Inl e"
    and "stdout (snd (openai_gpt_help client prompt w)) = stdout w"
  using assms by (simp_all add: openai_gpt_help_def Let_def)

lemma openai_gpt_help_responds:
  assumes "chat_completions_create client (requests w)
             \<lparr>model = ''gpt-4o'', messages = [\<lparr>role = ''user'', content = prompt\<rparr>],
              temperature = 0\<rparr> = Inr response"
  shows "fst (openai_gpt_help client prompt w) =
           (case choices response of
              [] \<Rightarrow> Inl IndexError
            | c # rest \<Rightarrow> Inr (content (message c)))"
    and "stdout (snd (openai_gpt_help client prompt w)) =
           stdout w @ [[Lit ''Tokens used: '', Fmt (usage response)]]"
  using assms by (simp_all add: openai_gpt_help_def Let_def split: list.splits)

lemma printed_since_append: "stdout w' = stdout w @ out \<Longrightarrow> printed_since w w' = out"
  by (simp add: printed_since_def)

lemma surfaced_usage_line:
  "stdout w' = stdout w @ [[Lit s, Fmt u]] \<Longrightarrow> surfaced_usage w w' = [u]"
  by (simp add: surfaced_usage_def printed_since_def)

lemma hello_client_answers:
  "chat_completions_create hello_client seen
     \<lparr>model = ''gpt-4o'', messages = [\<lparr>role = ''user'', content = ''Say hello.''\<rparr>],
      temperature = 0\<rparr> = Inr (hello_payload 5 2 7)"
  by (simp add: hello_client_def hello_request_def)

lemma fixed_client_answers: "chat_completions_create (fixed_client payload) seen req = Inr payload"
  by (simp add: fixed_client_def)

lemma failing_client_raises: "chat_completions_create (failing_client e) seen req = Inl e"
  by (simp add: failing_client_def)

text \<open>
  C3, as the claim states it, fails: the value \<^verbatim>\<open>openai_gpt_help\<close> returns is the text
  alone. In the scenario it is \<^verbatim>\<open>"Hello!"\<close>, and it is the same \<^verbatim>\<open>"Hello!"\<close> when
  the endpoint reports the usage 50/20/70 instead of 5/2/7: the usage counts are not in
  the return value.
\<close>

theorem openai_gpt_help_return_omits_usage:
  "fst (openai_gpt_help hello_client ''Say hello.'' fresh_world) = Inr ''Hello!''
   \<and> fst (openai_gpt_help (fixed_client (hello_payload 50 20 70)) ''Say hello.'' fresh_world) =
       Inr ''Hello!''
   \<and> usage (hello_payload 5 2 7) \<noteq> usage (hello_payload 50 20 70)"
  by (simp add: openai_gpt_help_responds(1) [OF hello_client_answers]
      openai_gpt_help_responds(1) [OF fixed_client_answers] hello_payload_def assistant_says_def)

text \<open>
  C3, amended. The end-to-end scenario: with the prompt \<^verbatim>\<open>"Say hello."\<close> and an endpoint
  that answers the request for model \<^verbatim>\<open>"gpt-4o"\<close> at temperature \<open>0\<close> with the text
  \<^verbatim>\<open>"Hello!"\<close> and usage \<open>{prompt: 5, completion: 2, total: 7}\<close>,
  \<^verbatim>\<open>openai_gpt_help\<close> returns exactly \<^verbatim>\<open>"Hello!"\<close> and prints the
  \<^verbatim>\<open>Tokens used:\<close> line with the usage record of counts 5/2/7; that one request is all
  that was sent.
\<close>

theorem openai_gpt_help_say_hello:
  "openai_gpt_help hello_client ''Say hello.'' fresh_world =
     (Inr ''Hello!'',
      \<lparr>secret_calls = [],
       requests = [\<lparr>model = ''gpt-4o'',
                    messages = [\<lparr>role = ''user'', content = ''Say hello.''\<rparr>],
                    temperature = 0\<rparr>],
       stdout = [[Lit ''Tokens used: '',
                  Fmt \<lparr>completion_tokens = 2, prompt_tokens = 5, total_tokens = 7\<rparr>]]\<rparr>)"
  by (simp add: openai_gpt_help_def Let_def hello_client_answers hello_payload_def
      assistant_says_def fresh_world_def)

text \<open>
  C5. For every prompt, \<^verbatim>\<open>openai_gpt_help\<close> makes exactly one call of
  \<^verbatim>\<open>chat.completions.create\<close>, and that call carries the model \<^verbatim>\<open>gpt-4o\<close>, the
  message list made of the single user-role message whose content is exactly the prompt,
  and the temperature \<open>0\<close>: it is the one call recorded; an error the endpoint raises
  for that request is the outcome; the usage the endpoint reports for that request is what
  is printed; and what the endpoint would answer to any other request has no influence on
  the outcome.
\<close>

theorem openai_gpt_help_issues_one_request:
  "requests (snd (openai_gpt_help client prompt w)) =
     requests w @ [\<lparr>model = ''gpt-4o'', messages = [\<lparr>role = ''user'', content = prompt\<rparr>],
                    temperature = 0\<rparr>]
   \<and> (\<forall>e. chat_completions_create client (requests w)
               \<lparr>model = ''gpt-4o'', messages = [\<lparr>role = ''user'', content = prompt\<rparr>],
                temperature = 0\<rparr> = Inl e
            \<longrightarrow> fst (openai_gpt_help client prompt w) = Inl e)
   \<and> (\<forall>response. chat_completions_create client (requests w)
               \<lparr>model = ''gpt-4o'', messages = [\<lparr>role = ''user'', content = prompt\<rparr>],
                temperature = 0\<rparr> = Inr response
            \<longrightarrow> printed_since w (snd (openai_gpt_help client prompt w)) =
                  [[Lit ''Tokens used: '', Fmt (usage response)]])
   \<and> (\<forall>client'. chat_completions_create client' (requests w)
               \<lparr>model = ''gpt-4o'', messages = [\<lparr>role = ''user'', content = prompt\<rparr>],
                temperature = 0\<rparr> =
             chat_completions_create client (requests w)
               \<lparr>model = ''gpt-4o'', messages = [\<lparr>role = ''user'', content = prompt\<rparr>],
                temperature = 0\<rparr>
            \<longrightarrow> openai_gpt_help client' prompt w = openai_gpt_help client prompt w)"
proof (intro conjI allI impI)
  show "requests (snd (openai_gpt_help client prompt w)) =
     requests w @ [\<lparr>model = ''gpt-4o'', messages = [\<lparr>role = ''user'', content = prompt\<rparr>],
                    temperature = 0\<rparr>]"
    by (rule openai_gpt_help_requests)
next
  fix e
  assume "chat_completions_create client (requests w)
               \<lparr>model = ''gpt-4o'', messages = [\<lparr>role = ''user'', content = prompt\<rparr>],
                temperature = 0\<rparr> = Inl e"
  then show "fst (openai_gpt_help client prompt w) = Inl e"
    by (rule openai_gpt_help_raises(1))
next
  fix response
  assume "chat_completions_create client (requests w)
               \<lparr>model = ''gpt-4o'', messages = [\<lparr>role = ''user'', content = prompt\<rparr>],
                temperature = 0\<rparr> = Inr response"
  then show "printed_since w (snd (openai_gpt_help client prompt w)) =
                  [[Lit ''Tokens used: '', Fmt (usage response)]]"
    by (rule printed_since_append [OF openai_gpt_help_responds(2)])
next
  fix client' :: openai_client
  assume "chat_completions_create client' (requests w)
               \<lparr>model = ''gpt-4o'', messages = [\<lparr>role = ''user'', content = prompt\<rparr>],
                temperature = 0\<rparr> =
             chat_completions_create client (requests w)
               \<lparr>model = ''gpt-4o'', messages = [\<lparr>role = ''user'', content = prompt\<rparr>],
                temperature = 0\<rparr>"
  then show "openai_gpt_help client' prompt w = openai_gpt_help client prompt w"
    by (simp add: openai_gpt_help_def Let_def)
qed

theorem openai_gpt_help_issues_one_request_witness:
  "requests (snd (openai_gpt_help hello_client ''Say hello.'' fresh_world)) =
     [\<lparr>model = ''gpt-4o'', messages = [\<lparr>role = ''user'', content = ''Say hello.''\<rparr>],
       temperature = 0\<rparr>]
   \<and> printed_since fresh_world (snd (openai_gpt_help hello_client ''Say hello.'' fresh_world)) =
       [[Lit ''Tokens used: '',
         Fmt \<lparr>completion_tokens = 2, prompt_tokens = 5, total_tokens = 7\<rparr>]]
   \<and> openai_gpt_help (fixed_client (hello_payload 5 2 7)) ''Say hello.'' fresh_world =
       openai_gpt_help hello_client ''Say hello.'' fresh_world
   \<and> fst (openai_gpt_help (failing_client (PyError ''AuthenticationError'' ''401'' None))
            ''Say hello.'' fresh_world) =
       Inl (PyError ''AuthenticationError'' ''401'' None)"
proof -
  have same: "chat_completions_create (fixed_client (hello_payload 5 2 7)) (requests fresh_world)
                \<lparr>model = ''gpt-4o'', messages = [\<lparr>role = ''user'', content = ''Say hello.''\<rparr>],
                 temperature = 0\<rparr> =
              chat_completions_create hello_client (requests fresh_world)
                \<lparr>model = ''gpt-4o'', messages = [\<lparr>role = ''user'', content = ''Say hello.''\<rparr>],
                 temperature = 0\<rparr>"
    by (simp add: fixed_client_answers hello_client_answers)
  note hello = openai_gpt_help_issues_one_request
    [where client = hello_client and prompt = "''Say hello.''" and w = fresh_world]
  note failing = openai_gpt_help_issues_one_request
    [where client = "failing_client (PyError ''AuthenticationError'' ''401'' None)"
       and prompt = "''Say hello.''" and w = fresh_world]
  have "requests (snd (openai_gpt_help hello_client ''Say hello.'' fresh_world)) =
     [\<lparr>model = ''gpt-4o'', messages = [\<lparr>role = ''user'', content = ''Say hello.''\<rparr>],
       temperature = 0\<rparr>]"
    using hello [THEN conjunct1] by (simp add: fresh_world_def)
  moreover
  have "printed_since fresh_world (snd (openai_gpt_help hello_client ''Say hello.'' fresh_world)) =
          [[Lit ''Tokens used: '', Fmt (usage (hello_payload 5 2 7))]]"
    by (rule hello [THEN conjunct2, THEN conjunct2, THEN conjunct1, rule_format])
      (rule hello_client_answers)
  moreover
  have "openai_gpt_help (fixed_client (hello_payload 5 2 7)) ''Say hello.'' fresh_world =
          openai_gpt_help hello_client ''Say hello.'' fresh_world"
    by (rule hello [THEN conjunct2, THEN conjunct2, THEN conjunct2, rule_format]) (rule same)
  moreover
  have "fst (openai_gpt_help (failing_client (PyError ''AuthenticationError'' ''401'' None))
              ''Say hello.'' fresh_world) =
          Inl (PyError ''AuthenticationError'' ''401'' None)"
    by (rule failing [THEN conjunct2, THEN conjunct1, rule_format]) (rule failing_client_raises)
  ultimately show ?thesis
    by (simp add: hello_payload_def)
qed

text \<open>
  C6. Against an endpoint that answers every request with one fixed payload, two invocations
  of \<^verbatim>\<open>openai_gpt_help\<close> with the same prompt, one after the other, return the same
  result and print the same usage line, that of the payload.
\<close>

theorem openai_gpt_help_repeatable:
  assumes "\<And>seen req. chat_completions_create client seen req = Inr payload"
  shows "fst (openai_gpt_help client prompt (snd (openai_gpt_help client prompt w))) =
           fst (openai_gpt_help client prompt w)
         \<and> printed_since (snd (openai_gpt_help client prompt w))
               (snd (openai_gpt_help client prompt (snd (openai_gpt_help client prompt w)))) =
             printed_since w (snd (openai_gpt_help client prompt w))
         \<and> surfaced_usage w (snd (openai_gpt_help client prompt w)) = [usage payload]"
proof -
  let ?w1 = "snd (openai_gpt_help client prompt w)"
  let ?w2 = "snd (openai_gpt_help client prompt ?w1)"
  have out1: "stdout ?w1 = stdout w @ [[Lit ''Tokens used: '', Fmt (usage payload)]]"
    by (rule openai_gpt_help_responds(2)) (rule assms)
  have out2: "stdout ?w2 = stdout ?w1 @ [[Lit ''Tokens used: '', Fmt (usage payload)]]"
    by (rule openai_gpt_help_responds(2)) (rule assms)
  have "fst (openai_gpt_help client prompt ?w1) = fst (openai_gpt_help client prompt w)"
    by (simp add: openai_gpt_help_responds(1) [OF assms])
  moreover have "printed_since ?w1 ?w2 = printed_since w ?w1"
    by (simp add: printed_since_append [OF out1] printed_since_append [OF out2])
  moreover have "surfaced_usage w ?w1 = [usage payload]"
    using out1 by (rule surfaced_usage_line)
  ultimately show ?thesis by simp
qed

theorem openai_gpt_help_repeatable_witness:
  "fst (openai_gpt_help (fixed_client (hello_payload 5 2 7)) ''Say hello.''
          (snd (openai_gpt_help (fixed_client (hello_payload 5 2 7)) ''Say hello.'' fresh_world))) =
     fst (openai_gpt_help (fixed_client (hello_payload 5 2 7)) ''Say hello.'' fresh_world)
   \<and> printed_since
         (snd (openai_gpt_help (fixed_client (hello_payload 5 2 7)) ''Say hello.'' fresh_world))
         (snd (openai_gpt_help (fixed_client (hello_payload 5 2 7)) ''Say hello.''
            (snd (openai_gpt_help (fixed_client (hello_payload 5 2 7)) ''Say hello.''
               fresh_world)))) =
       printed_since fresh_world
         (snd (openai_gpt_help (fixed_client (hello_payload 5 2 7)) ''Say hello.'' fresh_world))
   \<and> surfaced_usage fresh_world
         (snd (openai_gpt_help (fixed_client (hello_payload 5 2 7)) ''Say hello.'' fresh_world)) =
       [\<lparr>completion_tokens = 2, prompt_tokens = 5, total_tokens = 7\<rparr>]"
  using openai_gpt_help_repeatable
    [where client = "fixed_client (hello_payload 5 2 7)" and payload = "hello_payload 5 2 7"
       and prompt = "''Say hello.''" and w = fresh_world, OF fixed_client_answers]
  by (simp add: hello_payload_def)

text \<open>
  C7, as the claim states it, fails: the usage record is passed through as the endpoint
  reported it, so an endpoint reporting prompt 5, completion 2 and total 100 has exactly that
  record surfaced, and 100 is not 5 + 2.
\<close>

theorem surfaced_usage_total_mismatch:
  "surfaced_usage fresh_world
     (snd (openai_gpt_help (fixed_client (hello_payload 5 2 100)) ''Say hello.'' fresh_world)) =
     [\<lparr>completion_tokens = 2, prompt_tokens = 5, total_tokens = 100\<rparr>]
   \<and> total_tokens \<lparr>completion_tokens = 2, prompt_tokens = 5, total_tokens = 100\<rparr> \<noteq>
       prompt_tokens \<lparr>completion_tokens = 2, prompt_tokens = 5, total_tokens = 100\<rparr>
       + completion_tokens \<lparr>completion_tokens = 2, prompt_tokens = 5, total_tokens = 100\<rparr>"
  by (simp add: surfaced_usage_line [OF openai_gpt_help_responds(2) [OF fixed_client_answers]]
      hello_payload_def)

text \<open>
  C7, amended. Every usage record the Completion Requester surfaces is the usage record of
  the endpoint's response, passed through unchanged: a call the endpoint answers surfaces
  exactly that record, whatever its counts, and a call the endpoint refuses surfaces none.
  So the total equals the prompt count plus the completion count for every surfaced
  record exactly when it does in the endpoint's response.
\<close>

theorem surfaced_usage_is_endpoint_usage:
  "surfaced_usage w (snd (openai_gpt_help client prompt w)) =
     (case chat_completions_create client (requests w)
             \<lparr>model = ''gpt-4o'', messages = [\<lparr>role = ''user'', content = prompt\<rparr>],
              temperature = 0\<rparr> of
        Inl e \<Rightarrow> []
      | Inr response \<Rightarrow> [usage response])
   \<and> (\<forall>response.
         chat_completions_create client (requests w)
           \<lparr>model = ''gpt-4o'', messages = [\<lparr>role = ''user'', content = prompt\<rparr>],
            temperature = 0\<rparr> = Inr response
         \<longrightarrow> ((\<forall>u \<in> set (surfaced_usage w (snd (openai_gpt_help client prompt w))).
                 total_tokens u = prompt_tokens u + completion_tokens u)
              \<longleftrightarrow> total_tokens (usage response) =
                    prompt_tokens (usage response) + completion_tokens (usage response)))"
proof -
  have "surfaced_usage w (snd (openai_gpt_help client prompt w)) =
     (case chat_completions_create client (requests w)
             \<lparr>model = ''gpt-4o'', messages = [\<lparr>role = ''user'', content = prompt\<rparr>],
              temperature = 0\<rparr> of
        Inl e \<Rightarrow> []
      | Inr response \<Rightarrow> [usage response])"
  proof (cases "chat_completions_create client (requests w)
             \<lparr>model = ''gpt-4o'', messages = [\<lparr>role = ''user'', content = prompt\<rparr>],
              temperature = 0\<rparr>")
    case (Inl e)
    then show ?thesis
      by (simp add: surfaced_usage_def printed_since_def openai_gpt_help_raises(2))
  next
    case (Inr response)
    then show ?thesis
      by (simp add: surfaced_usage_line [OF openai_gpt_help_responds(2)])
  qed
  then show ?thesis by simp
qed

theorem surfaced_usage_is_endpoint_usage_witness:
  "surfaced_usage fresh_world (snd (openai_gpt_help hello_client ''Say hello.'' fresh_world)) =
     [\<lparr>completion_tokens = 2, prompt_tokens = 5, total_tokens = 7\<rparr>]
   \<and> list_all (\<lambda>u. total_tokens u = prompt_tokens u + completion_tokens u)
         (surfaced_usage fresh_world
            (snd (openai_gpt_help hello_client ''Say hello.'' fresh_world)))
   \<and> surfaced_usage fresh_world
         (snd (openai_gpt_help (fixed_client (hello_payload 5 2 100)) ''Say hello.'' fresh_world)) =
       [\<lparr>completion_tokens = 2, prompt_tokens = 5, total_tokens = 100\<rparr>]
   \<and> \<not> list_all (\<lambda>u. total_tokens u = prompt_tokens u + completion_tokens u)
         (surfaced_usage fresh_world
            (snd (openai_gpt_help (fixed_client (hello_payload 5 2 100)) ''Say hello.''
               fresh_world)))"
proof -
  note hello = surfaced_usage_is_endpoint_usage
    [where client = hello_client and prompt = "''Say hello.''" and w = fresh_world]
  note skewed = surfaced_usage_is_endpoint_usage
    [where client = "fixed_client (hello_payload 5 2 100)" and prompt = "''Say hello.''"
       and w = fresh_world]
  have h1:
    "surfaced_usage fresh_world (snd (openai_gpt_help hello_client ''Say hello.'' fresh_world)) =
       [usage (hello_payload 5 2 7)]"
    using hello [THEN conjunct1] by (simp add: hello_client_answers)
  have h2:
    "(\<forall>u \<in> set (surfaced_usage fresh_world
                   (snd (openai_gpt_help hello_client ''Say hello.'' fresh_world))).
        total_tokens u = prompt_tokens u + completion_tokens u)
     \<longleftrightarrow> total_tokens (usage (hello_payload 5 2 7)) =
           prompt_tokens (usage (hello_payload 5 2 7))
           + completion_tokens (usage (hello_payload 5 2 7))"
    by (rule hello [THEN conjunct2, rule_format]) (rule hello_client_answers)
  have s1:
    "surfaced_usage fresh_world
       (snd (openai_gpt_help (fixed_client (hello_payload 5 2 100)) ''Say hello.'' fresh_world)) =
       [usage (hello_payload 5 2 100)]"
    using skewed [THEN conjunct1] by (simp add: fixed_client_answers)
  have s2:
    "(\<forall>u \<in> set (surfaced_usage fresh_world
                   (snd (openai_gpt_help (fixed_client (hello_payload 5 2 100)) ''Say hello.''
                      fresh_world))).
        total_tokens u = prompt_tokens u + completion_tokens u)
     \<longleftrightarrow> total_tokens (usage (hello_payload 5 2 100)) =
           prompt_tokens (usage (hello_payload 5 2 100))
           + completion_tokens (usage (hello_payload 5 2 100))"
    by (rule skewed [THEN conjunct2, rule_format]) (rule fixed_client_answers)
  have ok: "list_all (\<lambda>u. total_tokens u = prompt_tokens u + completion_tokens u)
         (surfaced_usage fresh_world
            (snd (openai_gpt_help hello_client ''Say hello.'' fresh_world)))"
    using h2 by (simp add: list_all_iff hello_payload_def)
  have bad: "\<not> list_all (\<lambda>u. total_tokens u = prompt_tokens u + completion_tokens u)
         (surfaced_usage fresh_world
            (snd (openai_gpt_help (fixed_client (hello_payload 5 2 100)) ''Say hello.''
               fresh_world)))"
    using s2 by (simp add: list_all_iff hello_payload_def)
  from h1 s1 ok bad show ?thesis
    by (simp add: hello_payload_def)
qed

text \<open>
  C8. If the endpoint call raises an error, \<^verbatim>\<open>openai_gpt_help\<close> ends with that same
  error: nothing is returned, and nothing is printed (the output is what it was before
  the call, and no usage record is surfaced).
\<close>

theorem openai_gpt_help_propagates_error:
  assumes "chat_completions_create client (requests w)
             \<lparr>model = ''gpt-4o'', messages = [\<lparr>role = ''user'', content = prompt\<rparr>],
              temperature = 0\<rparr> = Inl e"
  shows "fst (openai_gpt_help client prompt w) = Inl e
         \<and> stdout (snd (openai_gpt_help client prompt w)) = stdout w
         \<and> surfaced_usage w (snd (openai_gpt_help client prompt w)) = []"
  using openai_gpt_help_raises [OF assms]
  by (simp add: surfaced_usage_def printed_since_def)

theorem openai_gpt_help_propagates_error_witness:
  "fst (openai_gpt_help (failing_client (PyError ''RateLimitError'' ''429'' None))
          ''Say hello.'' fresh_world) =
     Inl (PyError ''RateLimitError'' ''429'' None)
   \<and> stdout (snd (openai_gpt_help (failing_client (PyError ''RateLimitError'' ''429'' None))
                    ''Say hello.'' fresh_world)) = []
   \<and> surfaced_usage fresh_world
         (snd (openai_gpt_help (failing_client (PyError ''RateLimitError'' ''429'' None))
                 ''Say hello.'' fresh_world)) = []"
  using openai_gpt_help_propagates_error
    [where client = "failing_client (PyError ''RateLimitError'' ''429'' None)"
       and w = fresh_world and prompt = "''Say hello.''", OF failing_client_raises]
  by (simp add: fresh_world_def)

text \<open>
  C10. When the endpoint answers, \<^verbatim>\<open>openai_gpt_help\<close> returns the message content of
  the first choice and nothing else: the value is that string alone, whatever further
  choices and whatever usage record the response holds. When the response has no choice
  at all, the call ends with \<^verbatim>\<open>IndexError\<close> and returns nothing.
\<close>

theorem openai_gpt_help_returns_first_choice:
  assumes "chat_completions_create client (requests w)
             \<lparr>model = ''gpt-4o'', messages = [\<lparr>role = ''user'', content = prompt\<rparr>],
              temperature = 0\<rparr> = Inr response"
  shows "fst (openai_gpt_help client prompt w) =
           (case choices response of
              [] \<Rightarrow> Inl IndexError
            | c # rest \<Rightarrow> Inr (content (message c)))"
  using assms by (rule openai_gpt_help_responds(1))

theorem openai_gpt_help_returns_first_choice_witness:
  "fst (openai_gpt_help
          (fixed_client \<lparr>choices = [assistant_says ''first'', assistant_says ''second''],
                          usage = \<lparr>completion_tokens = 2, prompt_tokens = 5, total_tokens = 7\<rparr>\<rparr>)
          ''Say hello.'' fresh_world) = Inr ''first''
   \<and> fst (openai_gpt_help
          (fixed_client \<lparr>choices = [],
                          usage = \<lparr>completion_tokens = 0, prompt_tokens = 5, total_tokens = 5\<rparr>\<rparr>)
          ''Say hello.'' fresh_world) = Inl IndexError"
  using
    openai_gpt_help_returns_first_choice
      [where client = "fixed_client \<lparr>choices = [assistant_says ''first'', assistant_says ''second''],
                          usage = \<lparr>completion_tokens = 2, prompt_tokens = 5, total_tokens = 7\<rparr>\<rparr>"
         and w = fresh_world and prompt = "''Say hello.''", OF fixed_client_answers]
    openai_gpt_help_returns_first_choice
      [where client = "fixed_client \<lparr>choices = [],
                          usage = \<lparr>completion_tokens = 0, prompt_tokens = 5, total_tokens = 5\<rparr>\<rparr>"
         and w = fresh_world and prompt = "''Say hello.''", OF fixed_client_answers]
  by (simp add: assistant_says_def)

end
